theory Spec2Isabelle
  imports Complex_Main "HOL-Library.Sublist" "HOL-Library.Char_ord" "HOL-Library.List_Lexorder"
begin

section \<open>Values of the host language\<close>

text \<open>
  The services are written in JavaScript and receive loosely typed values. The inputs
  whose dynamic type the code inspects (the search term, \<open>page\<close>, \<open>pageSize\<close>) are
  modelled by \<open>jsval\<close>. \<open>JNaN\<close> is the Number NaN; \<open>JNumber s\<close> is any other Number,
  given by the string \<open>s\<close> that \<open>String(v)\<close> returns for it: \<open>999\<close> is
  \<open>JNumber ''999''\<close>, \<open>2.5\<close> is \<open>JNumber ''2.5''\<close>, \<open>1e21\<close> is \<open>JNumber ''1e+21''\<close> and
  \<open>Infinity\<close> is \<open>JNumber ''Infinity''\<close>. The code applies two operations to such a
  Number: \<open>parseInt\<close>, which converts its argument to that string first, and the test of
  truthiness, which fails for \<open>0\<close> and \<open>-0\<close> only (both print as \<open>0\<close>).

  Strings are strings of ASCII characters (\<open>asciiString\<close>). On such strings
  \<open>toLowerCase\<close> and \<open>trim\<close> below are the functions of the platform; beyond ASCII the
  platform also folds the case of other letters and trims other white space (U+00A0,
  U+FEFF, the Unicode space separators), which the model does not follow. A statement
  that depends on \<open>toLowerCase\<close> or \<open>trim\<close> is therefore made for ASCII strings.
\<close>

datatype jsval = JUndefined | JNull | JNumber string | JNaN | JStr string


text \<open>\<open>String.prototype.toLowerCase\<close> on an ASCII string: an upper-case letter \<open>A\<close>..\<open>Z\<close>
  moves up by 32, which sets bit 5 of its code.\<close>

definition toLowerChar :: "char \<Rightarrow> char" where
  "toLowerChar c =
     (if CHR ''A'' \<le> c \<and> c \<le> CHR ''Z''
      then (case c of Char b0 b1 b2 b3 b4 b5 b6 b7 \<Rightarrow> Char b0 b1 b2 b3 b4 True b6 b7)
      else c)"

definition toLowerCase :: "string \<Rightarrow> string" where
  "toLowerCase s = map toLowerChar s"

text \<open>The ASCII white space and line terminators, which \<open>String.prototype.trim\<close> removes
  and \<open>parseInt\<close> skips: TAB, LF, VT, FF, CR and SPACE.\<close>

definition isWhiteSpace :: "char \<Rightarrow> bool" where
  "isWhiteSpace c = (c \<in> set [CHR 0x09, CHR 0x0A, CHR 0x0B, CHR 0x0C, CHR 0x0D, CHR '' ''])"

definition trim :: "string \<Rightarrow> string" where
  "trim s = rev (dropWhile isWhiteSpace (rev (dropWhile isWhiteSpace s)))"

text \<open>\<open>String.prototype.includes\<close>: \<open>str_includes s t\<close> is \<open>s.includes(t)\<close>.\<close>

fun str_includes :: "string \<Rightarrow> string \<Rightarrow> bool" where
  "str_includes [] t = (t = [])"
| "str_includes (c # s) t = (prefix t (c # s) \<or> str_includes s t)"

text \<open>\<open>x || ''\<close> for a string field that may be missing.\<close>

definition orEmpty :: "string option \<Rightarrow> string" where
  "orEmpty v = (case v of None \<Rightarrow> [] | Some s \<Rightarrow> s)"

subsection \<open>parseInt\<close>








subsection \<open>Integers as Numbers\<close>






section \<open>Data model\<close>

text \<open>
  A date-valued field, by what the \<open>Date\<close> constructor makes of it:
  \<open>Instant t\<close> is a \<open>Date\<close> object or an ISO-8601 string such as
  \<open>2025-01-15T10:00:00.000Z\<close> of epoch millisecond \<open>t\<close>; \<open>Day d\<close> is the date-only string
  \<open>YYYY-MM-DD\<close> of day number \<open>d\<close> since the epoch (read as UTC midnight);
  \<open>Unparsable\<close> is any value for which \<open>new Date(v)\<close> is an Invalid Date;
  \<open>Blank\<close> is the empty string.
\<close>

datatype date_value = Instant int | Day int | Unparsable | Blank

text \<open>\<open>new Date(v).getTime()\<close>, with \<open>None\<close> for NaN (an Invalid Date).\<close>

fun newDate :: "date_value \<Rightarrow> int option" where
  "newDate (Instant t) = Some t"
| "newDate (Day d) = Some (d * 86400000)"
| "newDate Unparsable = None"
| "newDate Blank = None"

text \<open>Truthiness of a date-valued field: only the empty string is falsy.\<close>

fun dateTruthy :: "date_value \<Rightarrow> bool" where
  "dateTruthy Blank = False"
| "dateTruthy _ = True"

text \<open>The result objects are declared before the transaction so that the transaction's
  field names stay unqualified.\<close>

record aggregate_stats =
  totalUnits :: int
  totalAmount :: rat
  totalDiscount :: rat
  recordCount :: int


record filter_options =
  regions :: "string list"
  genders :: "string list"
  categories :: "string list"
  tags :: "string list"
  paymentMethods :: "string list"

text \<open>
  A transaction. A field that the code guards with \<open>|| ''\<close> or \<open>|| 0\<close> is optional
  (\<open>None\<close> is \<open>undefined\<close>); quantities and ages are integral, amounts are exact
  rationals (binary floating-point rounding is not modelled).
\<close>

record transaction =
  transactionId :: string
  customerId :: string
  customerName :: "string option"
  phoneNumber :: "string option"
  gender :: string
  age :: int
  customerRegion :: string
  productName :: "string option"
  productCategory :: string
  tags :: "string list"
  quantity :: "int option"
  totalAmount :: "rat option"
  finalAmount :: "rat option"
  date :: date_value
  paymentMethod :: string

record age_range =
  ageMin :: "int option"
  ageMax :: "int option"

record date_range =
  rangeStart :: "date_value option"
  rangeEnd :: "date_value option"

text \<open>The \<open>filters\<close> object: every key is optional; the field names carry the prefix
  \<open>f_\<close> because the transaction has fields of the same names.\<close>

record filters =
  f_customerRegion :: "string list option"
  f_gender :: "string list option"
  f_ageRange :: "age_range option"
  f_productCategory :: "string list option"
  f_tags :: "string list option"
  f_paymentMethod :: "string list option"
  f_dateRange :: "date_range option"

section \<open>SearchService\<close>

definition searchTransactions :: "transaction list \<Rightarrow> jsval \<Rightarrow> transaction list" where
  "searchTransactions data searchTerm =
     (case searchTerm of
        JStr s \<Rightarrow>
          if s = [] then data
          else
            let normalizedTerm = trim (toLowerCase s)
            in if normalizedTerm = [] then data
               else filter (\<lambda>t.
                      let matchesName = str_includes (toLowerCase (orEmpty (customerName t))) normalizedTerm;
                          matchesPhone = str_includes (orEmpty (phoneNumber t)) normalizedTerm
                      in matchesName \<or> matchesPhone) data
      | _ \<Rightarrow> data)"

section \<open>FilterService\<close>

text \<open>The \<open>filters\<close> argument as the services receive it: \<open>undefined\<close>, \<open>null\<close>, another
  value that is not an object (a string, a number, a boolean), or an object.\<close>

datatype filters_param = FUndefined | FNull | FPrimitive | FObject filters

definition filterByCustomerRegion :: "transaction list \<Rightarrow> string list \<Rightarrow> transaction list" where
  "filterByCustomerRegion data regionsArg =
     (if length regionsArg = 0 then data
      else filter (\<lambda>t. customerRegion t \<in> set regionsArg) data)"

definition filterByGender :: "transaction list \<Rightarrow> string list \<Rightarrow> transaction list" where
  "filterByGender data gendersArg =
     (if length gendersArg = 0 then data
      else filter (\<lambda>t. gender t \<in> set gendersArg) data)"

definition filterByAgeRange :: "transaction list \<Rightarrow> age_range \<Rightarrow> transaction list" where
  "filterByAgeRange data rangeArg =
     filter (\<lambda>t.
       if ageMin rangeArg \<noteq> None \<and> ageMax rangeArg \<noteq> None
         then the (ageMin rangeArg) \<le> age t \<and> age t \<le> the (ageMax rangeArg)
       else if ageMin rangeArg \<noteq> None then the (ageMin rangeArg) \<le> age t
       else if ageMax rangeArg \<noteq> None then age t \<le> the (ageMax rangeArg)
       else True) data"

definition filterByProductCategory :: "transaction list \<Rightarrow> string list \<Rightarrow> transaction list" where
  "filterByProductCategory data categoriesArg =
     (if length categoriesArg = 0 then data
      else filter (\<lambda>t. productCategory t \<in> set categoriesArg) data)"

definition filterByTags :: "transaction list \<Rightarrow> string list \<Rightarrow> transaction list" where
  "filterByTags data filterTags =
     (if length filterTags = 0 then data
      else filter (\<lambda>t. list_ex (\<lambda>tag. tag \<in> set (tags t)) filterTags) data)"

definition filterByPaymentMethod :: "transaction list \<Rightarrow> string list \<Rightarrow> transaction list" where
  "filterByPaymentMethod data methods =
     (if length methods = 0 then data
      else filter (\<lambda>t. paymentMethod t \<in> set methods) data)"

text \<open>Relational comparison of two \<open>Date\<close> objects: false as soon as one is invalid.\<close>

definition dateGe :: "int option \<Rightarrow> int option \<Rightarrow> bool" where
  "dateGe a b = (case (a, b) of (Some x, Some y) \<Rightarrow> y \<le> x | _ \<Rightarrow> False)"

definition dateLe :: "int option \<Rightarrow> int option \<Rightarrow> bool" where
  "dateLe a b = (case (a, b) of (Some x, Some y) \<Rightarrow> x \<le> y | _ \<Rightarrow> False)"


text \<open>Truthiness of an optional date bound: \<open>undefined\<close> and \<open>''\<close> are falsy.\<close>

definition boundGiven :: "date_value option \<Rightarrow> bool" where
  "boundGiven b = (case b of None \<Rightarrow> False | Some v \<Rightarrow> dateTruthy v)"

definition boundDate :: "date_value option \<Rightarrow> int option" where
  "boundDate b = (case b of None \<Rightarrow> None | Some v \<Rightarrow> newDate v)"

definition filterByDateRange :: "transaction list \<Rightarrow> date_range \<Rightarrow> transaction list" where
  "filterByDateRange data rangeArg =
     filter (\<lambda>t.
       let transactionDate = newDate (date t)
       in if boundGiven (rangeStart rangeArg) \<and> boundGiven (rangeEnd rangeArg)
            then dateGe transactionDate (boundDate (rangeStart rangeArg))
               \<and> dateLe transactionDate (boundDate (rangeEnd rangeArg))
          else if boundGiven (rangeStart rangeArg)
            then dateGe transactionDate (boundDate (rangeStart rangeArg))
          else if boundGiven (rangeEnd rangeArg)
            then dateLe transactionDate (boundDate (rangeEnd rangeArg))
          else True) data"

text \<open>\<open>filters.k && filters.k.length > 0\<close> for a multi-select key.\<close>

definition selected :: "string list option \<Rightarrow> bool" where
  "selected k = (case k of None \<Rightarrow> False | Some vs \<Rightarrow> length vs > 0)"

definition applyFilters :: "transaction list \<Rightarrow> filters_param \<Rightarrow> transaction list" where
  "applyFilters data fp =
     (case fp of
        FUndefined \<Rightarrow> data
      | FNull \<Rightarrow> data
      | FPrimitive \<Rightarrow> data
      | FObject f \<Rightarrow>
          let result = data;
              result = (if selected (f_customerRegion f)
                        then filterByCustomerRegion result (the (f_customerRegion f)) else result);
              result = (if selected (f_gender f)
                        then filterByGender result (the (f_gender f)) else result);
              result = (if f_ageRange f \<noteq> None
                        then filterByAgeRange result (the (f_ageRange f)) else result);
              result = (if selected (f_productCategory f)
                        then filterByProductCategory result (the (f_productCategory f)) else result);
              result = (if selected (f_tags f)
                        then filterByTags result (the (f_tags f)) else result);
              result = (if selected (f_paymentMethod f)
                        then filterByPaymentMethod result (the (f_paymentMethod f)) else result);
              result = (if f_dateRange f \<noteq> None
                        then filterByDateRange result (the (f_dateRange f)) else result)
          in result)"

text \<open>\<open>FilterService.getFilterOptions\<close>: the truthy (non-empty) values of each field are
  collected in a \<open>Set\<close>, and each set is returned as a sorted array.\<close>

definition distinctSorted :: "string list \<Rightarrow> string list" where
  "distinctSorted vs = sort (remdups vs)"

definition getFilterOptions :: "transaction list \<Rightarrow> filter_options" where
  "getFilterOptions data =
     \<lparr> regions = distinctSorted (filter (\<lambda>v. v \<noteq> []) (map customerRegion data)),
       genders = distinctSorted (filter (\<lambda>v. v \<noteq> []) (map gender data)),
       categories = distinctSorted (filter (\<lambda>v. v \<noteq> []) (map productCategory data)),
       filter_options.tags = distinctSorted (concat (map tags data)),
       paymentMethods = distinctSorted (filter (\<lambda>v. v \<noteq> []) (map paymentMethod data)) \<rparr>"

section \<open>SortService\<close>

text \<open>
  \<open>Array.prototype.sort(compareFn)\<close>. A comparator result of NaN is read as \<open>+0\<close>
  (\<open>None\<close> stands for NaN).
\<close>

definition sortCompare :: "int option \<Rightarrow> int" where
  "sortCompare v = (case v of None \<Rightarrow> 0 | Some n \<Rightarrow> n)"

text \<open>
  The language fixes the result of the sort when \<open>compareFn\<close> is a consistent comparison
  of the elements: it never yields NaN, every element is equal to itself, equality is
  symmetric and transitive, and less-than and greater-than are transitive
  (\<open>consistentOn\<close>). The result is then the elements in ascending order, elements that
  compare equal in the order they had: the stable sort, here by insertion
  (\<open>stableSort\<close>).
\<close>

definition consistentOn :: "('a \<Rightarrow> 'a \<Rightarrow> int option) \<Rightarrow> 'a list \<Rightarrow> bool" where
  "consistentOn cmp xs =
     (\<forall>a \<in> set xs. \<forall>b \<in> set xs. \<forall>c \<in> set xs.
        cmp a b \<noteq> None
      \<and> sortCompare (cmp a a) = 0
      \<and> (sortCompare (cmp a b) = 0 \<longrightarrow> sortCompare (cmp b a) = 0)
      \<and> (sortCompare (cmp a b) = 0 \<and> sortCompare (cmp b c) = 0 \<longrightarrow> sortCompare (cmp a c) = 0)
      \<and> (sortCompare (cmp a b) < 0 \<and> sortCompare (cmp b c) < 0 \<longrightarrow> sortCompare (cmp a c) < 0)
      \<and> (sortCompare (cmp a b) > 0 \<and> sortCompare (cmp b c) > 0 \<longrightarrow> sortCompare (cmp a c) > 0))"

fun insertBy :: "('a \<Rightarrow> 'a \<Rightarrow> int option) \<Rightarrow> 'a \<Rightarrow> 'a list \<Rightarrow> 'a list" where
  "insertBy cmp x [] = [x]"
| "insertBy cmp x (y # ys) =
     (if sortCompare (cmp x y) \<le> 0 then x # y # ys else y # insertBy cmp x ys)"

definition stableSort :: "('a \<Rightarrow> 'a \<Rightarrow> int option) \<Rightarrow> 'a list \<Rightarrow> 'a list" where
  "stableSort cmp xs = foldr (insertBy cmp) xs []"

text \<open>
  For a comparator that is not consistent the language leaves the order to the engine.
  The engine of the runtime, V8, sorts an array of fewer than 64 elements as one run:
  \<open>CountAndMakeRun\<close> takes the longest initial run, which is either non-descending
  or strictly descending and then reversed, and \<open>BinaryInsertionSort\<close> inserts each
  remaining element into the sorted part at the position that a binary search finds.
  \<open>v8Sort\<close> is this procedure on the array of the elements. (An array of 64 or more
  elements is cut into several runs, which are merged; \<open>v8Sort\<close> does not follow that,
  and nothing below is stated of the order that an inconsistent comparator gives to such
  an array.)
\<close>

fun spanRun ::
  "('a \<Rightarrow> 'a \<Rightarrow> int option) \<Rightarrow> bool \<Rightarrow> 'a \<Rightarrow> 'a list \<Rightarrow> 'a list \<times> 'a list" where
  "spanRun cmp isDescending previousElement [] = ([], [])"
| "spanRun cmp isDescending previousElement (currentElement # rest) =
     (if (if isDescending then sortCompare (cmp currentElement previousElement) \<ge> 0
          else sortCompare (cmp currentElement previousElement) < 0)
      then ([], currentElement # rest)
      else (case spanRun cmp isDescending currentElement rest of
              (run, remaining) \<Rightarrow> (currentElement # run, remaining)))"

definition countAndMakeRun ::
  "('a \<Rightarrow> 'a \<Rightarrow> int option) \<Rightarrow> 'a list \<Rightarrow> 'a list \<times> 'a list" where
  "countAndMakeRun cmp work =
     (case work of
        elementHigh # elementLow # rest \<Rightarrow>
          (let isDescending = (sortCompare (cmp elementLow elementHigh) < 0)
           in case spanRun cmp isDescending elementLow rest of
                (run, remaining) \<Rightarrow>
                  (if isDescending then rev (elementHigh # elementLow # run)
                   else elementHigh # elementLow # run, remaining))
      | _ \<Rightarrow> (work, []))"

function binarySearch ::
  "('a \<Rightarrow> 'a \<Rightarrow> int option) \<Rightarrow> 'a \<Rightarrow> 'a list \<Rightarrow> nat \<Rightarrow> nat \<Rightarrow> nat" where
  "binarySearch cmp pivot work left right =
     (if left < right
      then (if sortCompare (cmp pivot (work ! (left + (right - left) div 2))) < 0
            then binarySearch cmp pivot work left (left + (right - left) div 2)
            else binarySearch cmp pivot work (left + (right - left) div 2 + 1) right)
      else left)"
  by pat_completeness auto
termination
  by (relation "measure (\<lambda>(cmp, pivot, work, left, right). right - left)") auto

declare binarySearch.simps [simp del]

definition binaryInsert :: "('a \<Rightarrow> 'a \<Rightarrow> int option) \<Rightarrow> 'a list \<Rightarrow> 'a \<Rightarrow> 'a list" where
  "binaryInsert cmp sortedPart pivot =
     (let left = binarySearch cmp pivot sortedPart 0 (length sortedPart)
      in take left sortedPart @ pivot # drop left sortedPart)"

definition binaryInsertionSort ::
  "('a \<Rightarrow> 'a \<Rightarrow> int option) \<Rightarrow> 'a list \<Rightarrow> 'a list \<Rightarrow> 'a list" where
  "binaryInsertionSort cmp run remaining = foldl (binaryInsert cmp) run remaining"

definition v8Sort :: "('a \<Rightarrow> 'a \<Rightarrow> int option) \<Rightarrow> 'a list \<Rightarrow> 'a list" where
  "v8Sort cmp work =
     (if length work < 2 then work
      else (case countAndMakeRun cmp work of
              (run, remaining) \<Rightarrow> binaryInsertionSort cmp run remaining))"

definition arraySort :: "('a \<Rightarrow> 'a \<Rightarrow> int option) \<Rightarrow> 'a list \<Rightarrow> 'a list" where
  "arraySort cmp xs = (if consistentOn cmp xs then stableSort cmp xs else v8Sort cmp xs)"

text \<open>Subtraction of two Numbers of which either may be NaN.\<close>

definition numSub :: "int option \<Rightarrow> int option \<Rightarrow> int option" where
  "numSub a b = (case (a, b) of (Some x, Some y) \<Rightarrow> Some (x - y) | _ \<Rightarrow> None)"

definition dateComparator :: "string \<Rightarrow> transaction \<Rightarrow> transaction \<Rightarrow> int option" where
  "dateComparator sortOrder a b =
     (let dateA = newDate (date a); dateB = newDate (date b)
      in if sortOrder = ''asc'' then numSub dateA dateB else numSub dateB dateA)"

definition sortByDate :: "transaction list \<Rightarrow> string \<Rightarrow> transaction list" where
  "sortByDate data sortOrder = arraySort (dateComparator sortOrder) data"

text \<open>\<open>t.quantity || 0\<close>.\<close>

definition quantityOrZero :: "transaction \<Rightarrow> int" where
  "quantityOrZero t = (case quantity t of None \<Rightarrow> 0 | Some q \<Rightarrow> q)"

definition quantityComparator :: "string \<Rightarrow> transaction \<Rightarrow> transaction \<Rightarrow> int option" where
  "quantityComparator sortOrder a b =
     (let quantityA = quantityOrZero a; quantityB = quantityOrZero b
      in if sortOrder = ''asc'' then Some (quantityA - quantityB) else Some (quantityB - quantityA))"

definition sortByQuantity :: "transaction list \<Rightarrow> string \<Rightarrow> transaction list" where
  "sortByQuantity data sortOrder = arraySort (quantityComparator sortOrder) data"

text \<open>
  \<open>String.prototype.localeCompare\<close> belongs to the platform's collation library and is
  a parameter \<open>localeCompare\<close> of the functions that call it: \<open>localeCompare a b\<close> is
  negative, zero or positive. \<open>collationConsistent\<close> says that it is a consistent
  comparison of the given strings.
\<close>

definition collationConsistent :: "(string \<Rightarrow> string \<Rightarrow> int) \<Rightarrow> string list \<Rightarrow> bool" where
  "collationConsistent localeCompare names = consistentOn (\<lambda>a b. Some (localeCompare a b)) names"

definition nameKey :: "transaction \<Rightarrow> string" where
  "nameKey t = toLowerCase (orEmpty (customerName t))"

definition nameComparator ::
  "(string \<Rightarrow> string \<Rightarrow> int) \<Rightarrow> string \<Rightarrow> transaction \<Rightarrow> transaction \<Rightarrow> int option" where
  "nameComparator localeCompare sortOrder a b =
     (let nameA = nameKey a; nameB = nameKey b;
          comparison = localeCompare nameA nameB
      in if sortOrder = ''asc'' then Some comparison else Some (- comparison))"

definition sortByCustomerName ::
  "(string \<Rightarrow> string \<Rightarrow> int) \<Rightarrow> transaction list \<Rightarrow> string \<Rightarrow> transaction list" where
  "sortByCustomerName localeCompare data sortOrder =
     arraySort (nameComparator localeCompare sortOrder) data"

definition validSortFields :: "string list" where
  "validSortFields = [''date'', ''quantity'', ''customerName'']"

text \<open>The contents of the array that \<open>sortTransactions\<close> returns. An argument that is
  \<open>undefined\<close> (\<open>None\<close>) takes its default.\<close>

definition sortTransactions ::
  "(string \<Rightarrow> string \<Rightarrow> int) \<Rightarrow> transaction list \<Rightarrow> string option \<Rightarrow> string option
     \<Rightarrow> transaction list" where
  "sortTransactions localeCompare data sortByArg sortOrderArg =
     (let sortBy = (case sortByArg of None \<Rightarrow> ''date'' | Some s \<Rightarrow> s);
          sortOrder = (case sortOrderArg of None \<Rightarrow> ''desc'' | Some s \<Rightarrow> s)
      in if length data = 0 then data
         else if sortBy \<notin> set validSortFields then data
         else if sortBy = ''date'' then sortByDate data sortOrder
         else if sortBy = ''quantity'' then sortByQuantity data sortOrder
         else if sortBy = ''customerName'' then sortByCustomerName localeCompare data sortOrder
         else data)"

subsection \<open>The same function over a store of arrays\<close>

text \<open>
  Arrays are mutable objects. A store is the list of the arrays allocated so far and a
  reference is an index into it. The spread \<open>[...data]\<close> allocates a new array with the
  elements of \<open>data\<close>; \<open>Array.prototype.sort\<close> reorders its receiver in place and returns
  it. \<open>sortTransactionsRef\<close> returns the reference it hands back and the store it leaves.
\<close>

type_synonym store = "transaction list list"

definition spread :: "store \<Rightarrow> nat \<Rightarrow> nat \<times> store" where
  "spread h a = (length h, h @ [h ! a])"

definition sortInPlace ::
  "(transaction \<Rightarrow> transaction \<Rightarrow> int option) \<Rightarrow> store \<Rightarrow> nat \<Rightarrow> nat \<times> store" where
  "sortInPlace cmp h a = (a, h[a := arraySort cmp (h ! a)])"

definition sortTransactionsRef ::
  "(string \<Rightarrow> string \<Rightarrow> int) \<Rightarrow> store \<Rightarrow> nat \<Rightarrow> string option \<Rightarrow> string option
     \<Rightarrow> nat \<times> store" where
  "sortTransactionsRef localeCompare h data sortByArg sortOrderArg =
     (let sortBy = (case sortByArg of None \<Rightarrow> ''date'' | Some s \<Rightarrow> s);
          sortOrder = (case sortOrderArg of None \<Rightarrow> ''desc'' | Some s \<Rightarrow> s)
      in if length (h ! data) = 0 then (data, h)
         else if sortBy \<notin> set validSortFields then (data, h)
         else
           let (sortedRef, h1) = spread h data
           in if sortBy = ''date'' then sortInPlace (dateComparator sortOrder) h1 sortedRef
              else if sortBy = ''quantity'' then sortInPlace (quantityComparator sortOrder) h1 sortedRef
              else if sortBy = ''customerName''
                then sortInPlace (nameComparator localeCompare sortOrder) h1 sortedRef
              else (sortedRef, h1))"

section \<open>PaginationService\<close>








text \<open>A parameter with a default value takes it when the argument is \<open>undefined\<close>.\<close>

definition withDefault :: "jsval \<Rightarrow> jsval \<Rightarrow> jsval" where
  "withDefault d v = (case v of JUndefined \<Rightarrow> d | _ \<Rightarrow> v)"


section \<open>TransactionService: the array backend\<close>

text \<open>\<open>parseInt(t.quantity) || 0\<close>.\<close>

definition unitsOf :: "transaction \<Rightarrow> int" where
  "unitsOf t = (case quantity t of None \<Rightarrow> 0 | Some q \<Rightarrow> q)"

text \<open>\<open>a || b\<close> on optional Numbers: the first operand unless it is missing or zero.\<close>

definition orElse :: "rat option \<Rightarrow> rat option \<Rightarrow> rat option" where
  "orElse a b = (case a of None \<Rightarrow> b | Some x \<Rightarrow> if x = 0 then b else a)"

text \<open>\<open>parseFloat(v) || 0\<close>: a missing value parses to NaN, which is falsy.\<close>

definition floatOrZero :: "rat option \<Rightarrow> rat" where
  "floatOrZero v = (case v of None \<Rightarrow> 0 | Some x \<Rightarrow> x)"

definition calculateAggregateStats :: "transaction list \<Rightarrow> aggregate_stats" where
  "calculateAggregateStats data =
     (if length data = 0
      then \<lparr> totalUnits = 0, aggregate_stats.totalAmount = 0, totalDiscount = 0, recordCount = 0 \<rparr>
      else
        \<lparr> totalUnits = foldl (\<lambda>sum t. sum + unitsOf t) 0 data,
          aggregate_stats.totalAmount =
            foldl (\<lambda>sum t. sum + floatOrZero (orElse (totalAmount t) (finalAmount t))) 0 data,
          totalDiscount =
            foldl (\<lambda>sum t.
              let total = floatOrZero (orElse (totalAmount t) (Some 0));
                  final = floatOrZero (orElse (finalAmount t) (Some 0))
              in sum + (total - final)) 0 data,
          recordCount = int (length data) \<rparr>)"

text \<open>Errors: an \<open>Error\<close> with its message, a \<open>ValidationError\<close> with its message and its
  list of violations, and an error raised by the store or by the language runtime, whose
  message is not the program's.\<close>

datatype error = Error string | ValidationError string "string list" | RuntimeError

record query_params =
  p_search :: jsval
  p_filters :: filters_param
  p_sortBy :: "string option"
  p_sortOrder :: "string option"
  p_page :: jsval
  p_pageSize :: jsval


text \<open>The cache of the data loader is \<open>None\<close> until the data have been loaded.
  \<open>params.search\<close> defaults to \<open>''\<close> and \<open>params.filters\<close> to \<open>{}\<close>.\<close>

definition noFilters :: filters where
  "noFilters = \<lparr> f_customerRegion = None, f_gender = None, f_ageRange = None,
       f_productCategory = None, f_tags = None, f_paymentMethod = None, f_dateRange = None \<rparr>"



text \<open>Truthiness of a value.\<close>

fun truthy :: "jsval \<Rightarrow> bool" where
  "truthy JUndefined = False"
| "truthy JNull = False"
| "truthy JNaN = False"
| "truthy (JNumber s) = (s \<noteq> ''0'')"
| "truthy (JStr s) = (s \<noteq> [])"

text \<open>\<open>TransactionService.getFilterOptions\<close>; the name \<open>getFilterOptions\<close> is taken by
  the method of the filter service that it calls.\<close>

definition serviceGetFilterOptions ::
  "transaction list option \<Rightarrow> query_params \<Rightarrow> error + filter_options" where
  "serviceGetFilterOptions cache params =
     (case cache of
        None \<Rightarrow>
          Inl (Error ''Failed to get filter options: Data not loaded. Please restart the server.'')
      | Some loaded \<Rightarrow>
          let searchV = withDefault (JStr []) (p_search params);
              data = (if truthy searchV then searchTransactions loaded searchV else loaded)
          in Inr (getFilterOptions data))"

section \<open>DataLoader\<close>

text \<open>
  \<open>parseDate\<close> reads the system clock (\<open>new Date()\<close>) when the cell is missing, empty or
  unparsable; \<open>now\<close> is the reading. The result is an ISO-8601 string.
\<close>

definition parseDate :: "int \<Rightarrow> date_value option \<Rightarrow> date_value" where
  "parseDate now v =
     (case v of
        None \<Rightarrow> Instant now
      | Some d \<Rightarrow>
          if \<not> dateTruthy d then Instant now
          else (case newDate d of None \<Rightarrow> Instant now | Some t \<Rightarrow> Instant t))"

text \<open>
  A row of the CSV file: its date cell (\<open>row.date || row.Date\<close>), and the transaction
  that \<open>parseTransaction\<close> builds from the other cells. Rows are parsed one after the
  other; \<open>clock i\<close> is the reading of the system clock while row \<open>i\<close> is parsed.
  \<open>loadData\<close> is a load into an empty cache (the first load of a process, or a load
  after \<open>clearCache\<close>); a load that finds the cache filled returns the cached records.
\<close>

record csv_row =
  dateCell :: "date_value option"
  otherCells :: transaction

definition parseTransaction :: "int \<Rightarrow> csv_row \<Rightarrow> transaction" where
  "parseTransaction now row = (otherCells row)\<lparr> date := parseDate now (dateCell row) \<rparr>"

fun parseRows :: "(nat \<Rightarrow> int) \<Rightarrow> nat \<Rightarrow> csv_row list \<Rightarrow> transaction list" where
  "parseRows clock i [] = []"
| "parseRows clock i (row # rows) = parseTransaction (clock i) row # parseRows clock (Suc i) rows"

definition loadData :: "(nat \<Rightarrow> int) \<Rightarrow> csv_row list \<Rightarrow> transaction list" where
  "loadData clock rows = parseRows clock 0 rows"

section \<open>Request validation\<close>












section \<open>TransactionServiceMongo: the indexed backend\<close>

subsection \<open>Building the query\<close>

text \<open>
  The query object that \<open>buildFilterQuery\<close> returns: each key is present or not.
  \<open>m_customerRegion = Some vs\<close> is \<open>customerRegion: {$in: vs}\<close>; \<open>m_ageGte\<close> and \<open>m_ageLte\<close>
  are the operators of \<open>query.age\<close>; \<open>m_dateGte\<close> and \<open>m_dateLte\<close> are the operators of
  \<open>query.date\<close>, each holding the time value of its \<open>Date\<close> (\<open>Some None\<close> is an Invalid
  Date).
\<close>

record filter_query =
  m_customerRegion :: "string list option"
  m_gender :: "string list option"
  m_ageGte :: "int option"
  m_ageLte :: "int option"
  m_productCategory :: "string list option"
  m_tags :: "string list option"
  m_paymentMethod :: "string list option"
  m_dateGte :: "int option option"
  m_dateLte :: "int option option"

definition inQuery :: "string list option \<Rightarrow> string list option" where
  "inQuery k = (if selected k then k else None)"

definition buildFilterQuery :: "filters \<Rightarrow> filter_query" where
  "buildFilterQuery f =
     \<lparr> m_customerRegion = inQuery (f_customerRegion f),
       m_gender = inQuery (f_gender f),
       m_ageGte = (case f_ageRange f of
                     None \<Rightarrow> None
                   | Some r \<Rightarrow> (case ageMin r of
                                 None \<Rightarrow> None
                               | Some mn \<Rightarrow> if mn > 0 then Some mn else None)),
       m_ageLte = (case f_ageRange f of
                     None \<Rightarrow> None
                   | Some r \<Rightarrow> (case ageMax r of
                                 None \<Rightarrow> None
                               | Some mx \<Rightarrow> if mx < 100 then Some mx else None)),
       m_productCategory = inQuery (f_productCategory f),
       m_tags = inQuery (f_tags f),
       m_paymentMethod = inQuery (f_paymentMethod f),
       m_dateGte = (case f_dateRange f of
                      None \<Rightarrow> None
                    | Some r \<Rightarrow> if boundGiven (rangeStart r)
                                then Some (boundDate (rangeStart r)) else None),
       m_dateLte = (case f_dateRange f of
                      None \<Rightarrow> None
                    | Some r \<Rightarrow> if boundGiven (rangeEnd r)
                                then Some (boundDate (rangeEnd r)) else None) \<rparr>"

text \<open>\<open>buildSearchQuery\<close>: \<open>None\<close> is the empty query \<open>{}\<close>, \<open>Some term\<close> the \<open>$or\<close> of the five
  case-insensitive patterns. A truthy value that is not a string has no \<open>trim\<close> method and
  the call throws.\<close>

definition buildSearchQuery :: "jsval \<Rightarrow> error + string option" where
  "buildSearchQuery searchTerm =
     (case searchTerm of
        JStr s \<Rightarrow> if s = [] \<or> trim s = [] then Inr None else Inr (Some (trim s))
      | JNumber n \<Rightarrow> if n = ''0'' then Inr None else Inl RuntimeError
      | _ \<Rightarrow> Inr None)"

text \<open>\<open>buildSortQuery\<close>: the field and the direction, \<open>True\<close> for ascending (\<open>1\<close>).\<close>

definition buildSortQuery :: "string option \<Rightarrow> string option \<Rightarrow> string \<times> bool" where
  "buildSortQuery sortByArg sortOrderArg =
     (let sortBy = (case sortByArg of None \<Rightarrow> ''date'' | Some s \<Rightarrow> s);
          sortOrder = (case sortOrderArg of None \<Rightarrow> ''desc'' | Some s \<Rightarrow> s)
      in (sortBy, sortOrder = ''asc''))"

text \<open>The combined query: the filter query alone, or \<open>$and\<close> of it and the search query.\<close>

record combined_query =
  filterPart :: filter_query
  searchPart :: "string option"

subsection \<open>The store\<close>

text \<open>
  The collection is the list of its documents in insertion order; a document has the
  fields of a transaction and its \<open>date\<close> is a \<open>Date\<close> (\<open>Instant\<close>). The definitions of
  this subsection follow the query semantics that the store documents: \<open>$in\<close>, \<open>$gte\<close>,
  \<open>$lte\<close>, \<open>$regex\<close> with option \<open>i\<close>, \<open>$sum\<close> and \<open>$subtract\<close>, sort, skip and limit.
\<close>

text \<open>\<open>{$regex: term, $options: 'i'}\<close> on a string field, for a term without
  regular-expression metacharacters: a case-insensitive substring match. A missing field
  does not match.\<close>

definition regexMatch :: "string \<Rightarrow> string option \<Rightarrow> bool" where
  "regexMatch term v =
     (case v of None \<Rightarrow> False | Some s \<Rightarrow> str_includes (toLowerCase s) (toLowerCase term))"

definition matchesSearch :: "string option \<Rightarrow> transaction \<Rightarrow> bool" where
  "matchesSearch sq d =
     (case sq of
        None \<Rightarrow> True
      | Some term \<Rightarrow>
          regexMatch term (customerName d) \<or> regexMatch term (phoneNumber d)
        \<or> regexMatch term (Some (customerId d)) \<or> regexMatch term (productName d)
        \<or> regexMatch term (Some (transactionId d)))"

definition matchesIn :: "string list option \<Rightarrow> string \<Rightarrow> bool" where
  "matchesIn k v = (case k of None \<Rightarrow> True | Some vs \<Rightarrow> v \<in> set vs)"

text \<open>\<open>$in\<close> on an array field: some element of the array is in the list.\<close>

definition matchesInArray :: "string list option \<Rightarrow> string list \<Rightarrow> bool" where
  "matchesInArray k arr = (case k of None \<Rightarrow> True | Some vs \<Rightarrow> list_ex (\<lambda>e. e \<in> set vs) arr)"

definition matchesFilter :: "filter_query \<Rightarrow> transaction \<Rightarrow> bool" where
  "matchesFilter q d =
     (matchesIn (m_customerRegion q) (customerRegion d)
    \<and> matchesIn (m_gender q) (gender d)
    \<and> (case m_ageGte q of None \<Rightarrow> True | Some mn \<Rightarrow> mn \<le> age d)
    \<and> (case m_ageLte q of None \<Rightarrow> True | Some mx \<Rightarrow> age d \<le> mx)
    \<and> matchesIn (m_productCategory q) (productCategory d)
    \<and> matchesInArray (m_tags q) (tags d)
    \<and> matchesIn (m_paymentMethod q) (paymentMethod d)
    \<and> (case m_dateGte q of None \<Rightarrow> True | Some b \<Rightarrow> dateGe (newDate (date d)) b)
    \<and> (case m_dateLte q of None \<Rightarrow> True | Some b \<Rightarrow> dateLe (newDate (date d)) b))"


definition findMatching :: "transaction list \<Rightarrow> combined_query \<Rightarrow> transaction list" where
  "findMatching collection q =
     filter (\<lambda>d. matchesFilter (filterPart q) d \<and> matchesSearch (searchPart q) d) collection"

text \<open>
  \<open>Transaction.getAggregateStats\<close>: \<open>$match\<close> and one \<open>$group\<close>. \<open>$sum\<close> skips a value that
  is missing or null, and \<open>$subtract\<close> is null when an operand is missing. With no
  matching document the pipeline returns no group and the method returns zeros.
\<close>

definition sumPresentInt :: "int option list \<Rightarrow> int" where
  "sumPresentInt vs = sum_list (map (\<lambda>v. case v of None \<Rightarrow> 0 | Some x \<Rightarrow> x) vs)"

definition sumPresent :: "rat option list \<Rightarrow> rat" where
  "sumPresent vs = sum_list (map (\<lambda>v. case v of None \<Rightarrow> 0 | Some x \<Rightarrow> x) vs)"

definition subtractOp :: "rat option \<Rightarrow> rat option \<Rightarrow> rat option" where
  "subtractOp a b = (case (a, b) of (Some x, Some y) \<Rightarrow> Some (x - y) | _ \<Rightarrow> None)"

definition getAggregateStats :: "transaction list \<Rightarrow> combined_query \<Rightarrow> aggregate_stats" where
  "getAggregateStats collection q =
     (let matched = findMatching collection q
      in if length matched = 0
         then \<lparr> totalUnits = 0, aggregate_stats.totalAmount = 0, totalDiscount = 0,
                recordCount = 0 \<rparr>
         else \<lparr> totalUnits = sumPresentInt (map quantity matched),
                aggregate_stats.totalAmount = sumPresent (map totalAmount matched),
                totalDiscount =
                  sumPresent (map (\<lambda>d. subtractOp (totalAmount d) (finalAmount d)) matched),
                recordCount = int (length matched) \<rparr>)"

text \<open>
  Sorting by one field. Values of different types are ordered by type (a missing value
  first, then numbers, strings, dates), numbers and dates by value, strings by their
  bytes; an array sorts by its least element when ascending and by its greatest when
  descending, an empty array before everything. The order of the keys is a total
  preorder and the sort is the stable one: documents with equal keys are kept in
  collection order (the store promises no order among them).
\<close>

datatype sort_value = VEmpty | VNull | VNum rat | VStr string | VDate int

fun typeRank :: "sort_value \<Rightarrow> nat" where
  "typeRank VEmpty = 0"
| "typeRank VNull = 1"
| "typeRank (VNum x) = 2"
| "typeRank (VStr s) = 3"
| "typeRank (VDate t) = 4"

fun valueLess :: "sort_value \<Rightarrow> sort_value \<Rightarrow> bool" where
  "valueLess (VNum x) (VNum y) = (x < y)"
| "valueLess (VStr s) (VStr t) = (s < t)"
| "valueLess (VDate s) (VDate t) = (s < t)"
| "valueLess a b = (typeRank a < typeRank b)"

definition optStr :: "string option \<Rightarrow> sort_value" where
  "optStr v = (case v of None \<Rightarrow> VNull | Some s \<Rightarrow> VStr s)"

definition optNum :: "rat option \<Rightarrow> sort_value" where
  "optNum v = (case v of None \<Rightarrow> VNull | Some x \<Rightarrow> VNum x)"

definition leastValue :: "string list \<Rightarrow> sort_value" where
  "leastValue vs = (case sort vs of [] \<Rightarrow> VEmpty | v # _ \<Rightarrow> VStr v)"

definition greatestValue :: "string list \<Rightarrow> sort_value" where
  "greatestValue vs = (case rev (sort vs) of [] \<Rightarrow> VEmpty | v # _ \<Rightarrow> VStr v)"

definition fieldValue :: "string \<Rightarrow> bool \<Rightarrow> transaction \<Rightarrow> sort_value" where
  "fieldValue field ascending d =
     (if field = ''transactionId'' then VStr (transactionId d)
      else if field = ''customerId'' then VStr (customerId d)
      else if field = ''customerName'' then optStr (customerName d)
      else if field = ''phoneNumber'' then optStr (phoneNumber d)
      else if field = ''gender'' then VStr (gender d)
      else if field = ''age'' then VNum (rat_of_int (age d))
      else if field = ''customerRegion'' then VStr (customerRegion d)
      else if field = ''productName'' then optStr (productName d)
      else if field = ''productCategory'' then VStr (productCategory d)
      else if field = ''tags''
        then (if ascending then leastValue (tags d) else greatestValue (tags d))
      else if field = ''quantity'' then optNum (map_option rat_of_int (quantity d))
      else if field = ''totalAmount'' then optNum (totalAmount d)
      else if field = ''finalAmount'' then optNum (finalAmount d)
      else if field = ''date''
        then (case newDate (date d) of None \<Rightarrow> VNull | Some t \<Rightarrow> VDate t)
      else if field = ''paymentMethod'' then VStr (paymentMethod d)
      else VNull)"

definition storeComparator :: "string \<times> bool \<Rightarrow> transaction \<Rightarrow> transaction \<Rightarrow> int option" where
  "storeComparator spec a b =
     (let ka = fieldValue (fst spec) (snd spec) a;
          kb = fieldValue (fst spec) (snd spec) b;
          c = (if valueLess ka kb then - 1 else if valueLess kb ka then 1 else 0)
      in if snd spec then Some c else Some (- c))"

definition storeSort :: "string \<times> bool \<Rightarrow> transaction list \<Rightarrow> transaction list" where
  "storeSort spec docs = stableSort (storeComparator spec) docs"



subsection \<open>getTransactions\<close>







section \<open>The contracts in the words of the specification\<close>

text \<open>
  The filter contract: a multi-select constraint that is absent or empty constrains
  nothing, otherwise the record's value is a member of the set; the tag sets
  intersect; the age and the date lie within the bounds that are given, boundaries
  included, dates compared as parsed timestamps.
\<close>

definition spec_memberOf :: "string list option \<Rightarrow> string \<Rightarrow> bool" where
  "spec_memberOf sel v = (case sel of None \<Rightarrow> True | Some vs \<Rightarrow> vs = [] \<or> v \<in> set vs)"

definition spec_tagsIntersect :: "string list option \<Rightarrow> string list \<Rightarrow> bool" where
  "spec_tagsIntersect sel ts =
     (case sel of None \<Rightarrow> True | Some vs \<Rightarrow> vs = [] \<or> set vs \<inter> set ts \<noteq> {})"

definition spec_ageWithin :: "age_range option \<Rightarrow> int \<Rightarrow> bool" where
  "spec_ageWithin rg a =
     (case rg of
        None \<Rightarrow> True
      | Some r \<Rightarrow> (case ageMin r of None \<Rightarrow> True | Some mn \<Rightarrow> mn \<le> a)
               \<and> (case ageMax r of None \<Rightarrow> True | Some mx \<Rightarrow> a \<le> mx))"

definition spec_notBefore :: "date_value option \<Rightarrow> date_value \<Rightarrow> bool" where
  "spec_notBefore bound d =
     (case bound of
        None \<Rightarrow> True
      | Some Blank \<Rightarrow> True
      | Some s \<Rightarrow> (case (newDate s, newDate d) of (Some ts, Some td) \<Rightarrow> ts \<le> td | _ \<Rightarrow> False))"

definition spec_notAfter :: "date_value option \<Rightarrow> date_value \<Rightarrow> bool" where
  "spec_notAfter bound d =
     (case bound of
        None \<Rightarrow> True
      | Some Blank \<Rightarrow> True
      | Some e \<Rightarrow> (case (newDate e, newDate d) of (Some te, Some td) \<Rightarrow> td \<le> te | _ \<Rightarrow> False))"

definition spec_dateWithin :: "date_range option \<Rightarrow> date_value \<Rightarrow> bool" where
  "spec_dateWithin rg d =
     (case rg of
        None \<Rightarrow> True
      | Some r \<Rightarrow> spec_notBefore (rangeStart r) d \<and> spec_notAfter (rangeEnd r) d)"

definition spec_satisfies :: "filters \<Rightarrow> transaction \<Rightarrow> bool" where
  "spec_satisfies f r =
     (spec_memberOf (f_customerRegion f) (customerRegion r)
    \<and> spec_memberOf (f_gender f) (gender r)
    \<and> spec_ageWithin (f_ageRange f) (age r)
    \<and> spec_memberOf (f_productCategory f) (productCategory r)
    \<and> spec_tagsIntersect (f_tags f) (tags r)
    \<and> spec_memberOf (f_paymentMethod f) (paymentMethod r)
    \<and> spec_dateWithin (f_dateRange f) (date r))"
































text \<open>A date cell that is present, not empty and parsable.\<close>

definition cellParses :: "date_value option \<Rightarrow> bool" where
  "cellParses c = (case c of None \<Rightarrow> False | Some d \<Rightarrow> dateTruthy d \<and> newDate d \<noteq> None)"

text \<open>The timestamp under which a load files row \<open>i\<close>: the instant of its date cell when
  the cell parses, and otherwise the reading of the clock while the row is parsed.\<close>

definition loadedTime :: "(nat \<Rightarrow> int) \<Rightarrow> csv_row list \<Rightarrow> nat \<Rightarrow> int" where
  "loadedTime clock rows i =
     (if cellParses (dateCell (rows ! i)) then the (newDate (the (dateCell (rows ! i))))
      else clock i)"

text \<open>A record apart from its date.\<close>

definition withoutDate :: "transaction \<Rightarrow> transaction" where
  "withoutDate r = r\<lparr> date := Blank \<rparr>"

section \<open>Sample data\<close>

text \<open>Five transactions on which the properties below are run: John Doe (North, Male,
  35), Alice Johnson (South, Female, 28), Bob Smith (East, Male, 42) and two more.\<close>

definition sampleTx ::
  "string \<Rightarrow> string \<Rightarrow> string \<Rightarrow> string \<Rightarrow> string \<Rightarrow> int \<Rightarrow> int \<Rightarrow> rat \<Rightarrow> rat \<Rightarrow> int
     \<Rightarrow> transaction" where
  "sampleTx tid name phone region g a q amount paid t =
     \<lparr> transactionId = tid, customerId = ''C'' @ tid, customerName = Some name,
       phoneNumber = Some phone, gender = g, age = a, customerRegion = region,
       productName = Some ''Laptop'', productCategory = ''Electronics'',
       tags = [''tech''], quantity = Some q, totalAmount = Some amount,
       finalAmount = Some paid, date = Instant t, paymentMethod = ''Card'' \<rparr>"

definition txJohn :: transaction where
  "txJohn = sampleTx ''T1'' ''John Doe'' ''1234567890'' ''North'' ''Male'' 35 2 2000 1800 5000"

definition txAlice :: transaction where
  "txAlice = sampleTx ''T2'' ''Alice Johnson'' ''9876543210'' ''South'' ''Female'' 28 1 500 500 4000"

definition txBob :: transaction where
  "txBob = sampleTx ''T3'' ''Bob Smith'' ''5551234567'' ''East'' ''Male'' 42 5 750 700 3000"

definition txCarol :: transaction where
  "txCarol = sampleTx ''T4'' ''carol king'' ''5550000000'' ''West'' ''Female'' 51 3 300 300 2000"

definition txDave :: transaction where
  "txDave = sampleTx ''T5'' ''Dave Long'' ''5559999999'' ''North'' ''Male'' 19 4 100 90 1000"

definition sampleTransactions :: "transaction list" where
  "sampleTransactions = [txJohn, txAlice, txBob, txCarol, txDave]"

text \<open>A collation on which \<open>sortByCustomerName\<close> can be run: the order of the bytes.\<close>

definition byteCompare :: "string \<Rightarrow> string \<Rightarrow> int" where
  "byteCompare a b = (if a < b then - 1 else if b < a then 1 else 0)"

definition northMale :: filters where
  "northMale = noFilters\<lparr> f_customerRegion := Some [''North''], f_gender := Some [''Male''] \<rparr>"




text \<open>A transaction without \<open>finalAmount\<close>.\<close>

definition txNoFinal :: transaction where
  "txNoFinal = txAlice\<lparr> finalAmount := None \<rparr>"

definition northOnly :: filters where
  "northOnly = noFilters\<lparr> f_customerRegion := Some [''North''] \<rparr>"

definition northParams :: query_params where
  "northParams = \<lparr> p_search = JUndefined, p_filters = FObject northOnly, p_sortBy = None,
       p_sortOrder = None, p_page = JUndefined, p_pageSize = JUndefined \<rparr>"




text \<open>A clock that reads \<open>t\<close> during the whole load, and two rows: one whose date cell
  cannot be parsed, one dated at millisecond 3000.\<close>

definition clockAt :: "int \<Rightarrow> nat \<Rightarrow> int" where
  "clockAt t i = t"

definition sampleRows :: "csv_row list" where
  "sampleRows = [\<lparr> dateCell = Some Unparsable, otherCells = txJohn \<rparr>,
                 \<lparr> dateCell = Some (Instant 3000), otherCells = txBob \<rparr>]"

text \<open>Three rows, whose date cells are unparsable, the millisecond 3000, and missing,
  and a clock that starts at \<open>t\<close> and advances by \<open>d\<close> milliseconds per row.\<close>

definition threeRows :: "csv_row list" where
  "threeRows = [\<lparr> dateCell = Some Unparsable, otherCells = txJohn \<rparr>,
                \<lparr> dateCell = Some (Instant 3000), otherCells = txBob \<rparr>,
                \<lparr> dateCell = None, otherCells = txAlice \<rparr>]"

definition tick :: "int \<Rightarrow> int \<Rightarrow> nat \<Rightarrow> int" where
  "tick t d i = t + d * int i"



section \<open>Properties\<close>

lemmas sample_defs =
  sampleTransactions_def txJohn_def txAlice_def txBob_def txCarol_def txDave_def sampleTx_def

subsection \<open>Search\<close>











subsection \<open>Filter\<close>

lemma filter_region:
  "(if selected k then filterByCustomerRegion xs (the k) else xs)
     = filter (\<lambda>r. spec_memberOf k (customerRegion r)) xs"
  by (cases k) (auto simp: selected_def filterByCustomerRegion_def spec_memberOf_def)

lemma filter_gender:
  "(if selected k then filterByGender xs (the k) else xs)
     = filter (\<lambda>r. spec_memberOf k (gender r)) xs"
  by (cases k) (auto simp: selected_def filterByGender_def spec_memberOf_def)

lemma filter_category:
  "(if selected k then filterByProductCategory xs (the k) else xs)
     = filter (\<lambda>r. spec_memberOf k (productCategory r)) xs"
  by (cases k) (auto simp: selected_def filterByProductCategory_def spec_memberOf_def)

lemma filter_payment:
  "(if selected k then filterByPaymentMethod xs (the k) else xs)
     = filter (\<lambda>r. spec_memberOf k (paymentMethod r)) xs"
  by (cases k) (auto simp: selected_def filterByPaymentMethod_def spec_memberOf_def)

lemma some_includes: "list_ex (\<lambda>tag. tag \<in> set ts) vs \<longleftrightarrow> set vs \<inter> set ts \<noteq> {}"
  by (auto simp: list_ex_iff)

lemma filter_tags:
  "(if selected k then filterByTags xs (the k) else xs)
     = filter (\<lambda>r. spec_tagsIntersect k (tags r)) xs"
  by (cases k) (auto simp: selected_def filterByTags_def spec_tagsIntersect_def some_includes)

lemma filter_age:
  "(if rg \<noteq> None then filterByAgeRange xs (the rg) else xs)
     = filter (\<lambda>r. spec_ageWithin rg (age r)) xs"
  by (cases rg)
     (auto simp: filterByAgeRange_def spec_ageWithin_def intro!: filter_cong split: option.splits)

lemma notBefore_code:
  "spec_notBefore b d = (if boundGiven b then dateGe (newDate d) (boundDate b) else True)"
  by (auto simp: spec_notBefore_def boundGiven_def boundDate_def dateGe_def
           split: option.splits date_value.splits)

lemma notAfter_code:
  "spec_notAfter b d = (if boundGiven b then dateLe (newDate d) (boundDate b) else True)"
  by (auto simp: spec_notAfter_def boundGiven_def boundDate_def dateLe_def
           split: option.splits date_value.splits)

lemma filter_date:
  "(if rg \<noteq> None then filterByDateRange xs (the rg) else xs)
     = filter (\<lambda>r. spec_dateWithin rg (date r)) xs"
  by (cases rg)
     (auto simp: filterByDateRange_def spec_dateWithin_def notBefore_code notAfter_code Let_def
           intro!: filter_cong)

lemma applyFilters_filter: "applyFilters R (FObject f) = filter (spec_satisfies f) R"
  unfolding applyFilters_def Let_def filters_param.case
    filter_region filter_gender filter_age filter_category filter_tags filter_payment filter_date
  by (simp add: spec_satisfies_def conj_commute conj_left_commute cong: filter_cong)

text \<open>
  C8. The result of \<open>applyFilters\<close> is a subsequence of its input, for every \<open>filters\<close>
  argument; for a \<open>filters\<close> object every record of the result is a record of the input
  that satisfies every constraint of the object, and the result is exactly the records
  that satisfy all of them (constraints are combined by AND).
\<close>

theorem applyFilters_closure:
  "subseq (applyFilters R fp) R
   \<and> (\<forall>r \<in> set (applyFilters R (FObject f)). r \<in> set R \<and> spec_satisfies f r)
   \<and> applyFilters R (FObject f) = filter (spec_satisfies f) R"
proof -
  have "subseq (applyFilters R fp) R"
    by (cases fp) (simp_all add: applyFilters_filter, simp_all add: applyFilters_def)
  then show ?thesis by (simp add: applyFilters_filter)
qed

theorem applyFilters_closure_witness:
  "applyFilters sampleTransactions (FObject northMale) = [txJohn, txDave]
   \<and> txJohn \<in> set sampleTransactions \<and> spec_satisfies northMale txJohn
   \<and> subseq [txJohn, txDave] sampleTransactions"
proof -
  have res: "applyFilters sampleTransactions (FObject northMale) = [txJohn, txDave]"
    by (simp add: applyFilters_def Let_def selected_def northMale_def noFilters_def
          filterByCustomerRegion_def filterByGender_def sample_defs)
  from applyFilters_closure [of sampleTransactions "FObject northMale" northMale]
  show ?thesis by (simp add: res)
qed

subsection \<open>Reading numbers\<close>





















subsection \<open>Pagination\<close>
















subsection \<open>Sorting\<close>











lemma arraySort_Nil: "arraySort cmp [] = []"
  by (simp add: arraySort_def stableSort_def v8Sort_def)




lemma consistentOn_key:
  fixes key :: "'a \<Rightarrow> int"
  assumes "\<forall>a \<in> set xs. \<forall>b \<in> set xs. cmp a b = Some (key a - key b)"
  shows "consistentOn cmp xs"
  unfolding consistentOn_def using assms by (auto simp: sortCompare_def)


lemma consistentOn_map:
  assumes "consistentOn f (map g xs)"
  shows "consistentOn (\<lambda>a b. f (g a) (g b)) xs"
  unfolding consistentOn_def
proof (intro ballI)
  fix a b c assume "a \<in> set xs" "b \<in> set xs" "c \<in> set xs"
  then have "g a \<in> set (map g xs)" "g b \<in> set (map g xs)" "g c \<in> set (map g xs)"
    by simp_all
  from assms [unfolded consistentOn_def, rule_format, OF this]
  show "f (g a) (g b) \<noteq> None
      \<and> sortCompare (f (g a) (g a)) = 0
      \<and> (sortCompare (f (g a) (g b)) = 0 \<longrightarrow> sortCompare (f (g b) (g a)) = 0)
      \<and> (sortCompare (f (g a) (g b)) = 0 \<and> sortCompare (f (g b) (g c)) = 0
           \<longrightarrow> sortCompare (f (g a) (g c)) = 0)
      \<and> (sortCompare (f (g a) (g b)) < 0 \<and> sortCompare (f (g b) (g c)) < 0
           \<longrightarrow> sortCompare (f (g a) (g c)) < 0)
      \<and> (sortCompare (f (g a) (g b)) > 0 \<and> sortCompare (f (g b) (g c)) > 0
           \<longrightarrow> sortCompare (f (g a) (g c)) > 0)" .
qed

lemma consistentOn_neg:
  assumes "consistentOn (\<lambda>a b. Some (f a b)) xs"
  shows "consistentOn (\<lambda>a b. Some (- f a b)) xs"
  unfolding consistentOn_def
proof (intro ballI)
  fix a b c assume abc: "a \<in> set xs" "b \<in> set xs" "c \<in> set xs"
  have h: "f a a = 0 \<and> (f a b = 0 \<longrightarrow> f b a = 0) \<and> (f a b = 0 \<and> f b c = 0 \<longrightarrow> f a c = 0)
      \<and> (f a b < 0 \<and> f b c < 0 \<longrightarrow> f a c < 0) \<and> (0 < f a b \<and> 0 < f b c \<longrightarrow> 0 < f a c)"
    using assms [unfolded consistentOn_def, rule_format, OF abc]
    by (simp only: sortCompare_def option.case) blast
  have "- f a a = 0 \<and> (- f a b = 0 \<longrightarrow> - f b a = 0) \<and> (- f a b = 0 \<and> - f b c = 0 \<longrightarrow> - f a c = 0)
      \<and> (- f a b < 0 \<and> - f b c < 0 \<longrightarrow> - f a c < 0) \<and> (0 < - f a b \<and> 0 < - f b c \<longrightarrow> 0 < - f a c)"
    using h
    by (simp only: neg_equal_0_iff_equal neg_less_0_iff_less neg_0_less_iff_less) blast
  then show "Some (- f a b) \<noteq> None
      \<and> sortCompare (Some (- f a a)) = 0
      \<and> (sortCompare (Some (- f a b)) = 0 \<longrightarrow> sortCompare (Some (- f b a)) = 0)
      \<and> (sortCompare (Some (- f a b)) = 0 \<and> sortCompare (Some (- f b c)) = 0
           \<longrightarrow> sortCompare (Some (- f a c)) = 0)
      \<and> (sortCompare (Some (- f a b)) < 0 \<and> sortCompare (Some (- f b c)) < 0
           \<longrightarrow> sortCompare (Some (- f a c)) < 0)
      \<and> (sortCompare (Some (- f a b)) > 0 \<and> sortCompare (Some (- f b c)) > 0
           \<longrightarrow> sortCompare (Some (- f a c)) > 0)"
    by (simp only: sortCompare_def option.case) blast
qed

lemma dates_consistent:
  assumes "list_all (\<lambda>r. newDate (date r) \<noteq> None) xs"
  shows "consistentOn (dateComparator ord) xs"
proof -
  have v: "\<exists>t. newDate (date r) = Some t" if "r \<in> set xs" for r
    using assms that by (auto simp: list_all_iff)
  show ?thesis
  proof (cases "ord = ''asc''")
    case True
    show ?thesis
    proof (rule consistentOn_key [where key = "\<lambda>r. the (newDate (date r))"], intro ballI)
      fix a b assume "a \<in> set xs" "b \<in> set xs"
      then obtain ta tb where "newDate (date a) = Some ta" "newDate (date b) = Some tb"
        using v by blast
      then show "dateComparator ord a b = Some (the (newDate (date a)) - the (newDate (date b)))"
        using True by (simp add: dateComparator_def numSub_def Let_def)
    qed
  next
    case False
    show ?thesis
    proof (rule consistentOn_key [where key = "\<lambda>r. - the (newDate (date r))"], intro ballI)
      fix a b assume "a \<in> set xs" "b \<in> set xs"
      then obtain ta tb where "newDate (date a) = Some ta" "newDate (date b) = Some tb"
        using v by blast
      then show "dateComparator ord a b
                   = Some (- the (newDate (date a)) - - the (newDate (date b)))"
        using False by (simp add: dateComparator_def numSub_def Let_def)
    qed
  qed
qed

lemma quantity_consistent: "consistentOn (quantityComparator ord) xs"
proof (cases "ord = ''asc''")
  case True
  show ?thesis
    by (rule consistentOn_key [where key = quantityOrZero])
       (simp add: quantityComparator_def Let_def True)
next
  case False
  show ?thesis
    by (rule consistentOn_key [where key = "\<lambda>r. - quantityOrZero r"])
       (simp add: quantityComparator_def Let_def False)
qed

lemma names_consistent:
  assumes "collationConsistent lc (map nameKey xs)"
  shows "consistentOn (nameComparator lc ord) xs"
proof -
  from assms have a: "consistentOn (\<lambda>a b. Some (lc (nameKey a) (nameKey b))) xs"
    unfolding collationConsistent_def by (rule consistentOn_map)
  then have d: "consistentOn (\<lambda>a b. Some (- lc (nameKey a) (nameKey b))) xs"
    by (rule consistentOn_neg)
  have "nameComparator lc ord =
          (if ord = ''asc'' then (\<lambda>a b. Some (lc (nameKey a) (nameKey b)))
           else (\<lambda>a b. Some (- lc (nameKey a) (nameKey b))))"
    by (intro ext) (simp add: nameComparator_def Let_def)
  with a d show ?thesis by simp
qed

lemma byteCompare_sign:
  "byteCompare a b = 0 \<longleftrightarrow> a = b" "byteCompare a b < 0 \<longleftrightarrow> a < b" "0 < byteCompare a b \<longleftrightarrow> b < a"
  by (auto simp: byteCompare_def)

lemma byteCompare_consistent: "collationConsistent byteCompare names"
  unfolding collationConsistent_def consistentOn_def
proof (intro ballI)
  fix a b c :: string
  have "(a < b \<and> b < c \<longrightarrow> a < c) \<and> (b < a \<and> c < b \<longrightarrow> c < a)"
    using less_trans [of a b c] less_trans [of c b a] by blast
  then show "Some (byteCompare a b) \<noteq> None
      \<and> sortCompare (Some (byteCompare a a)) = 0
      \<and> (sortCompare (Some (byteCompare a b)) = 0 \<longrightarrow> sortCompare (Some (byteCompare b a)) = 0)
      \<and> (sortCompare (Some (byteCompare a b)) = 0 \<and> sortCompare (Some (byteCompare b c)) = 0
           \<longrightarrow> sortCompare (Some (byteCompare a c)) = 0)
      \<and> (sortCompare (Some (byteCompare a b)) < 0 \<and> sortCompare (Some (byteCompare b c)) < 0
           \<longrightarrow> sortCompare (Some (byteCompare a c)) < 0)
      \<and> (sortCompare (Some (byteCompare a b)) > 0 \<and> sortCompare (Some (byteCompare b c)) > 0
           \<longrightarrow> sortCompare (Some (byteCompare a c)) > 0)"
    by (simp only: sortCompare_def option.case byteCompare_sign) blast
qed




lemma sortTransactions_cases:
  "sortTransactions lc xs (Some ''date'') so = sortByDate xs (case so of None \<Rightarrow> ''desc'' | Some s \<Rightarrow> s)"
  "sortTransactions lc xs None so = sortByDate xs (case so of None \<Rightarrow> ''desc'' | Some s \<Rightarrow> s)"
  "sortTransactions lc xs (Some ''quantity'') so = sortByQuantity xs (case so of None \<Rightarrow> ''desc'' | Some s \<Rightarrow> s)"
  "sortTransactions lc xs (Some ''customerName'') so = sortByCustomerName lc xs (case so of None \<Rightarrow> ''desc'' | Some s \<Rightarrow> s)"
  by (cases xs; simp add: sortTransactions_def validSortFields_def Let_def sortByDate_def
        sortByQuantity_def sortByCustomerName_def arraySort_Nil)+

lemma sortByDate_stableSort:
  "list_all (\<lambda>r. newDate (date r) \<noteq> None) xs \<Longrightarrow> sortByDate xs ord = stableSort (dateComparator ord) xs"
  by (simp add: sortByDate_def arraySort_def dates_consistent)


lemma sortByCustomerName_stableSort:
  "collationConsistent lc (map nameKey xs)
     \<Longrightarrow> sortByCustomerName lc xs ord = stableSort (nameComparator lc ord) xs"
  by (simp add: sortByCustomerName_def arraySort_def names_consistent)






lemma validSortFields_iff:
  "s \<in> set validSortFields \<longleftrightarrow> s = ''date'' \<or> s = ''quantity'' \<or> s = ''customerName''"
  by (auto simp: validSortFields_def)

text \<open>
  C10, as stated, fails: for a \<open>sortBy\<close> that is not supported the function returns the
  array it was given, not a new one.
\<close>

theorem sortTransactions_returns_input_counterexample:
  "[sampleTransactions] ! 0 \<noteq> []
   \<and> sortTransactionsRef byteCompare [sampleTransactions] 0 (Some ''price'') (Some ''asc'')
       = (0, [sampleTransactions])"
  by (simp add: sortTransactionsRef_def validSortFields_def Let_def sampleTransactions_def)

text \<open>
  C10, amended. For every store, every array \<open>a\<close> of it and every \<open>sortBy\<close> and
  \<open>sortOrder\<close>, \<open>sortTransactions\<close> leaves the input array and every other array of the
  store as they were, and the array it returns holds the sorted records. The returned
  array is a new one exactly when the input is not empty and \<open>sortBy\<close> is \<open>date\<close>,
  \<open>quantity\<close>, \<open>customerName\<close> or omitted; otherwise it is the input array itself.
\<close>

theorem sortTransactionsRef_frame:
  assumes a: "a < length h"
  shows "(case sortTransactionsRef lc h a sb so of
           (r, h') \<Rightarrow>
              h' ! a = h ! a
            \<and> take (length h) h' = h
            \<and> r < length h'
            \<and> h' ! r = sortTransactions lc (h ! a) sb so
            \<and> (r \<noteq> a \<longleftrightarrow>
                 h ! a \<noteq> [] \<and> (case sb of None \<Rightarrow> ''date'' | Some s \<Rightarrow> s) \<in> set validSortFields))"
proof -
  define f where "f = (case sb of None \<Rightarrow> ''date'' | Some s \<Rightarrow> s)"
  define ord where "ord = (case so of None \<Rightarrow> ''desc'' | Some s \<Rightarrow> s)"
  show ?thesis
  proof (cases "h ! a = [] \<or> f \<notin> set validSortFields")
    case True
    then show ?thesis using a
      by (auto simp: sortTransactionsRef_def sortTransactions_def Let_def f_def)
  next
    case False
    then have ne: "h ! a \<noteq> []" and v: "f = ''date'' \<or> f = ''quantity'' \<or> f = ''customerName''"
      by (simp_all add: validSortFields_iff)
    from v show ?thesis
      using ne a
      by (auto simp: sortTransactionsRef_def sortTransactions_def Let_def f_def [symmetric]
            ord_def [symmetric] validSortFields_iff spread_def sortInPlace_def nth_append
            sortByDate_def sortByQuantity_def sortByCustomerName_def)
  qed
qed

theorem sortTransactionsRef_frame_witness:
  "(0::nat) < length [[txJohn, txAlice]]
   \<and> sortTransactionsRef byteCompare [[txJohn, txAlice]] 0 (Some ''quantity'') (Some ''asc'')
       = (1, [[txJohn, txAlice], [txAlice, txJohn]])"
proof -
  have a: "(0::nat) < length [[txJohn, txAlice]]"
    by simp
  have res: "sortTransactionsRef byteCompare [[txJohn, txAlice]] 0 (Some ''quantity'') (Some ''asc'')
       = (1, [[txJohn, txAlice], [txAlice, txJohn]])"
    by (simp add: sortTransactionsRef_def validSortFields_def spread_def sortInPlace_def
          arraySort_def quantity_consistent stableSort_def quantityComparator_def
          quantityOrZero_def sortCompare_def Let_def sample_defs)
  from sortTransactionsRef_frame [OF a, of byteCompare "Some ''quantity''" "Some ''asc''"]
  show ?thesis by (simp add: res)
qed

subsection \<open>Aggregate statistics\<close>

text \<open>
  C2 does not hold of the array backend: a record that has \<open>totalAmount\<close> 500 and no
  \<open>finalAmount\<close> contributes 500, not 0, to \<open>totalDiscount\<close>, because the missing
  \<open>finalAmount\<close> is read as 0. The aggregation of the store, run on the same record,
  gives 0.
\<close>

theorem calculateAggregateStats_missing_finalAmount:
  "finalAmount txNoFinal = None \<and> totalAmount txNoFinal = Some 500
   \<and> totalDiscount (calculateAggregateStats [txNoFinal]) = 500
   \<and> totalDiscount (getAggregateStats [txNoFinal]
         \<lparr> filterPart = buildFilterQuery noFilters, searchPart = None \<rparr>) = 0"
  by (simp add: calculateAggregateStats_def txNoFinal_def sample_defs orElse_def floatOrZero_def
        Let_def getAggregateStats_def findMatching_def matchesFilter_def matchesSearch_def
        matchesIn_def matchesInArray_def buildFilterQuery_def noFilters_def inQuery_def
        selected_def sumPresent_def subtractOp_def)

subsection \<open>Filter options\<close>

lemma north_subset: "applyFilters (searchTransactions sampleTransactions (JStr [])) (FObject northOnly) = [txJohn, txDave]"
  by (simp add: applyFilters_def searchTransactions_def Let_def selected_def northOnly_def noFilters_def
          filterByCustomerRegion_def sample_defs)

text \<open>
  C4 does not hold of the array backend: with the filter \<open>customerRegion = [North]\<close> the
  search and filter stages leave John and Dave, whose only gender is Male, but the
  options are computed over the whole data set and list Female and every region.
\<close>

theorem serviceGetFilterOptions_ignores_filters:
  "applyFilters (searchTransactions sampleTransactions (JStr [])) (FObject northOnly) = [txJohn, txDave]
   \<and> genders (getFilterOptions [txJohn, txDave]) = [''Male'']
   \<and> map_sum id genders (serviceGetFilterOptions (Some sampleTransactions) northParams)
        = Inr [''Female'', ''Male'']
   \<and> map_sum id regions (serviceGetFilterOptions (Some sampleTransactions) northParams)
        = Inr [''East'', ''North'', ''South'', ''West'']"
  by (simp add: north_subset)
     (simp add: serviceGetFilterOptions_def northParams_def withDefault_def getFilterOptions_def
        distinctSorted_def sample_defs Let_def)

subsection \<open>Request validation\<close>















subsection \<open>Loading and sorting by date\<close>

text \<open>
  C6, as stated, fails: the loader replaces an unparsable date by the reading of the
  clock, so two loads of the same rows at different times order the records differently.
\<close>

theorem unparsable_date_order_depends_on_clock:
  "map transactionId
     (sortTransactions byteCompare (loadData (clockAt 1000) sampleRows) (Some ''date'') (Some ''asc''))
     = [''T1'', ''T3'']
   \<and> map transactionId
     (sortTransactions byteCompare (loadData (clockAt 5000) sampleRows) (Some ''date'') (Some ''asc''))
     = [''T3'', ''T1'']
   \<and> parseDate 1000 (Some Unparsable) = Instant 1000
   \<and> parseDate 5000 (Some Unparsable) = Instant 5000"
proof -
  have l: "loadData (clockAt t) sampleRows = [txJohn\<lparr> date := Instant t \<rparr>, txBob]" for t
    by (simp add: loadData_def sampleRows_def parseTransaction_def parseDate_def clockAt_def
          sample_defs)
  have v: "list_all (\<lambda>r. newDate (date r) \<noteq> None) [txJohn\<lparr> date := Instant t \<rparr>, txBob]" for t
    by (simp add: sample_defs)
  show ?thesis
    unfolding l sortTransactions_cases sortByDate_stableSort [OF v]
    by (simp add: parseDate_def stableSort_def dateComparator_def numSub_def sortCompare_def
          sample_defs)
qed

lemma parseDate_cases:
  "parseDate now c = (if cellParses c then Instant (the (newDate (the c))) else Instant now)"
  by (auto simp: parseDate_def cellParses_def split: option.splits)

lemma parseRows_agree:
  "\<forall>j < length rows. cellParses (dateCell (rows ! j)) \<or> clock1 (i + j) = clock2 (i + j)
     \<Longrightarrow> parseRows clock1 i rows = parseRows clock2 i rows"
proof (induction rows arbitrary: i)
  case Nil
  show ?case by simp
next
  case (Cons row rows)
  have hd: "cellParses (dateCell row) \<or> clock1 i = clock2 i"
    using Cons.prems by (auto dest: spec [of _ 0])
  have "\<forall>j < length rows. cellParses (dateCell (rows ! j)) \<or> clock1 (Suc i + j) = clock2 (Suc i + j)"
  proof (intro allI impI)
    fix j assume "j < length rows"
    then have "Suc j < length (row # rows)" by simp
    with Cons.prems have "cellParses (dateCell ((row # rows) ! Suc j)) \<or> clock1 (i + Suc j) = clock2 (i + Suc j)"
      by blast
    then show "cellParses (dateCell (rows ! j)) \<or> clock1 (Suc i + j) = clock2 (Suc i + j)" by simp
  qed
  then have tl: "parseRows clock1 (Suc i) rows = parseRows clock2 (Suc i) rows"
    by (rule Cons.IH)
  from hd have "parseTransaction (clock1 i) row = parseTransaction (clock2 i) row"
    by (auto simp: parseTransaction_def parseDate_cases)
  with tl show ?case by simp
qed

lemma length_parseRows: "length (parseRows clock k rows) = length rows"
  by (induction rows arbitrary: k) simp_all

lemma parseRows_nth:
  "i < length rows \<Longrightarrow> parseRows clock k rows ! i = parseTransaction (clock (k + i)) (rows ! i)"
proof (induction rows arbitrary: k i)
  case Nil
  then show ?case by simp
next
  case (Cons row rows)
  show ?case
  proof (cases i)
    case 0
    then show ?thesis by simp
  next
    case (Suc m)
    with Cons.prems have "m < length rows" by simp
    from Cons.IH [OF this, of "Suc k"] Suc show ?thesis by simp
  qed
qed

lemma loadData_nth:
  assumes "i < length rows"
  shows "date (loadData clock rows ! i) = Instant (loadedTime clock rows i)"
    and "withoutDate (loadData clock rows ! i) = withoutDate (otherCells (rows ! i))"
  using parseRows_nth [OF assms, of clock 0]
  by (simp_all add: loadData_def parseTransaction_def parseDate_cases loadedTime_def
        withoutDate_def)

lemma loadData_dates:
  "list_all (\<lambda>r. newDate (date r) \<noteq> None) (loadData clock rows)"
  unfolding list_all_length
  by (simp add: loadData_def length_parseRows parseRows_nth parseTransaction_def parseDate_cases)

lemma insertBy_rel:
  assumes "list_all2 R xs ys" and "R x y"
    and "\<And>a b. R a b \<Longrightarrow> (sortCompare (c1 x a) \<le> 0) = (sortCompare (c2 y b) \<le> 0)"
  shows "list_all2 R (insertBy c1 x xs) (insertBy c2 y ys)"
  using assms by (induction rule: list_all2_induct) simp_all

lemma stableSort_rel:
  assumes "list_all2 R xs ys"
    and "\<And>a b a' b'. R a b \<Longrightarrow> R a' b' \<Longrightarrow> (sortCompare (c1 a a') \<le> 0) = (sortCompare (c2 b b') \<le> 0)"
  shows "list_all2 R (stableSort c1 xs) (stableSort c2 ys)"
  using assms(1)
proof (induction rule: list_all2_induct)
  case Nil
  show ?case by (simp add: stableSort_def)
next
  case (Cons x xs y ys)
  have "list_all2 R (insertBy c1 x (stableSort c1 xs)) (insertBy c2 y (stableSort c2 ys))"
    using Cons.IH Cons.hyps(1) by (rule insertBy_rel) (rule assms(2) [OF Cons.hyps(1)])
  then show ?case by (simp add: stableSort_def)
qed

lemma map_rel: "list_all2 R xs ys \<Longrightarrow> (\<And>a b. R a b \<Longrightarrow> f a = f b) \<Longrightarrow> map f xs = map f ys"
  by (induction rule: list_all2_induct) simp_all

lemma sorted_loads_agree:
  assumes iso: "\<forall>i < length rows. \<forall>j < length rows.
      (loadedTime clock1 rows i < loadedTime clock1 rows j)
        = (loadedTime clock2 rows i < loadedTime clock2 rows j)"
  shows "map withoutDate (sortTransactions lc (loadData clock1 rows) (Some ''date'') so)
           = map withoutDate (sortTransactions lc (loadData clock2 rows) (Some ''date'') so)"
proof -
  define ord where "ord = (case so of None \<Rightarrow> ''desc'' | Some s \<Rightarrow> s)"
  define R where "R a b \<longleftrightarrow>
     (\<exists>i < length rows. a = loadData clock1 rows ! i \<and> b = loadData clock2 rows ! i)" for a b
  have len: "length (loadData clock1 rows) = length rows" "length (loadData clock2 rows) = length rows"
    by (simp_all add: loadData_def length_parseRows)
  have rel: "list_all2 R (loadData clock1 rows) (loadData clock2 rows)"
    unfolding list_all2_conv_all_nth by (auto simp: len R_def)
  have dec: "(sortCompare (dateComparator ord a a') \<le> 0) = (sortCompare (dateComparator ord b b') \<le> 0)"
    if "R a b" "R a' b'" for a b a' b'
  proof -
    from that obtain i j where i: "i < length rows" and j: "j < length rows"
      and a: "a = loadData clock1 rows ! i" and b: "b = loadData clock2 rows ! i"
      and a': "a' = loadData clock1 rows ! j" and b': "b' = loadData clock2 rows ! j"
      by (auto simp: R_def)
    have d: "date a = Instant (loadedTime clock1 rows i)" "date b = Instant (loadedTime clock2 rows i)"
      "date a' = Instant (loadedTime clock1 rows j)" "date b' = Instant (loadedTime clock2 rows j)"
      by (simp_all add: a b a' b' loadData_nth(1) i j)
    from iso i j have
      "(loadedTime clock1 rows i < loadedTime clock1 rows j)
         = (loadedTime clock2 rows i < loadedTime clock2 rows j)"
      "(loadedTime clock1 rows j < loadedTime clock1 rows i)
         = (loadedTime clock2 rows j < loadedTime clock2 rows i)"
      by simp_all
    then show ?thesis
      by (auto simp: dateComparator_def numSub_def sortCompare_def Let_def d)
  qed
  have "list_all2 R (stableSort (dateComparator ord) (loadData clock1 rows))
                    (stableSort (dateComparator ord) (loadData clock2 rows))"
    using rel by (rule stableSort_rel) (rule dec)
  moreover have "withoutDate a = withoutDate b" if "R a b" for a b
    using that by (auto simp: R_def loadData_nth(2))
  ultimately have "map withoutDate (stableSort (dateComparator ord) (loadData clock1 rows))
                   = map withoutDate (stableSort (dateComparator ord) (loadData clock2 rows))"
    by (rule map_rel)
  then show ?thesis
    by (simp add: sortTransactions_cases sortByDate_stableSort [OF loadData_dates] ord_def)
qed

lemma loadedTime_parsed:
  "cellParses (dateCell (rows ! i)) \<Longrightarrow> loadedTime clock1 rows i = loadedTime clock2 rows i"
  by (simp add: loadedTime_def)

text \<open>
  C6, amended. The loader files a row under the instant of its date cell when the cell
  parses, and otherwise (a missing, empty or unparsable cell) under the reading of the
  clock while the row is loaded, not under a fixed sentinel; the rest of the record does
  not depend on the clock. Sorting reads no clock. Two runs of loading and then sorting by
  date give the same records in the same order, apart from the dates that were
  substituted, whenever the two loads order the timestamps of the rows alike; in
  particular they give the same result when every date cell parses.
\<close>

theorem load_then_sort_by_date:
  "length (loadData clock rows) = length rows
   \<and> (\<forall>i < length rows.
          date (loadData clock rows ! i) = Instant (loadedTime clock rows i)
        \<and> withoutDate (loadData clock rows ! i) = withoutDate (otherCells (rows ! i)))
   \<and> ((\<forall>i < length rows. \<forall>j < length rows.
          (loadedTime clock1 rows i < loadedTime clock1 rows j)
            = (loadedTime clock2 rows i < loadedTime clock2 rows j))
       \<longrightarrow> map withoutDate (sortTransactions lc (loadData clock1 rows) (Some ''date'') so)
           = map withoutDate (sortTransactions lc (loadData clock2 rows) (Some ''date'') so))
   \<and> ((\<forall>i < length rows. cellParses (dateCell (rows ! i)))
       \<longrightarrow> sortTransactions lc (loadData clock1 rows) (Some ''date'') so
           = sortTransactions lc (loadData clock2 rows) (Some ''date'') so)"
proof (intro conjI allI impI)
  show "length (loadData clock rows) = length rows"
    by (simp add: loadData_def length_parseRows)
next
  fix i assume "i < length rows"
  then show "date (loadData clock rows ! i) = Instant (loadedTime clock rows i)"
    and "withoutDate (loadData clock rows ! i) = withoutDate (otherCells (rows ! i))"
    by (rule loadData_nth)+
next
  assume "\<forall>i < length rows. \<forall>j < length rows.
          (loadedTime clock1 rows i < loadedTime clock1 rows j)
            = (loadedTime clock2 rows i < loadedTime clock2 rows j)"
  then show "map withoutDate (sortTransactions lc (loadData clock1 rows) (Some ''date'') so)
           = map withoutDate (sortTransactions lc (loadData clock2 rows) (Some ''date'') so)"
    by (rule sorted_loads_agree)
next
  assume "\<forall>i < length rows. cellParses (dateCell (rows ! i))"
  then have "loadData clock1 rows = loadData clock2 rows"
    unfolding loadData_def by (intro parseRows_agree) simp
  then show "sortTransactions lc (loadData clock1 rows) (Some ''date'') so
           = sortTransactions lc (loadData clock2 rows) (Some ''date'') so"
    by simp
qed

lemma threeRows_loaded:
  "loadData (tick t d) threeRows =
     [txJohn\<lparr> date := Instant t \<rparr>, txBob, txAlice\<lparr> date := Instant (t + d * 2) \<rparr>]"
  by (simp add: loadData_def threeRows_def parseTransaction_def parseDate_def tick_def sample_defs)

lemma threeRows_times:
  "loadedTime (tick t d) threeRows 0 = t" "loadedTime (tick t d) threeRows (Suc 0) = 3000"
  "loadedTime (tick t d) threeRows 2 = t + d * 2"
  by (simp_all add: loadedTime_def threeRows_def cellParses_def tick_def)

lemma threeRows_sorted:
  assumes "3000 < t" "0 < d"
  shows "map transactionId (sortTransactions byteCompare (loadData (tick t d) threeRows) (Some ''date'') None)
           = [''T2'', ''T1'', ''T3'']"
proof -
  have k: "date (txJohn\<lparr> date := Instant t \<rparr>) = Instant t" "date txBob = Instant 3000"
    "date (txAlice\<lparr> date := Instant (t + d * 2) \<rparr>) = Instant (t + d * 2)"
    "transactionId (txJohn\<lparr> date := Instant t \<rparr>) = ''T1''" "transactionId txBob = ''T3''"
    "transactionId (txAlice\<lparr> date := Instant (t + d * 2) \<rparr>) = ''T2''"
    by (simp_all add: sample_defs)
  have "sortTransactions byteCompare (loadData (tick t d) threeRows) (Some ''date'') None
          = stableSort (dateComparator ''desc'') (loadData (tick t d) threeRows)"
    by (simp add: sortTransactions_cases sortByDate_stableSort [OF loadData_dates])
  then show ?thesis
    unfolding threeRows_loaded using assms
    by (simp add: stableSort_def dateComparator_def numSub_def sortCompare_def k)
qed

theorem load_then_sort_by_date_witness:
  "\<not> cellParses (dateCell (threeRows ! 0)) \<and> \<not> cellParses (dateCell (threeRows ! 2))
   \<and> date (loadData (tick 4000 1) threeRows ! 0) = Instant 4000
   \<and> date (loadData (tick 7000 10) threeRows ! 0) = Instant 7000
   \<and> date (loadData (tick 7000 10) threeRows ! 2) = Instant 7020
   \<and> map transactionId (map withoutDate
        (sortTransactions byteCompare (loadData (tick 4000 1) threeRows) (Some ''date'') None))
      = [''T2'', ''T1'', ''T3'']
   \<and> map withoutDate
        (sortTransactions byteCompare (loadData (tick 4000 1) threeRows) (Some ''date'') None)
      = map withoutDate
        (sortTransactions byteCompare (loadData (tick 7000 10) threeRows) (Some ''date'') None)"
proof -
  have len: "length threeRows = 3"
    by (simp add: threeRows_def)
  have lt3: "i < 3 \<longleftrightarrow> i = 0 \<or> i = 1 \<or> i = 2" for i :: nat
    by auto
  have iso: "\<forall>i < length threeRows. \<forall>j < length threeRows.
          (loadedTime (tick 4000 1) threeRows i < loadedTime (tick 4000 1) threeRows j)
            = (loadedTime (tick 7000 10) threeRows i < loadedTime (tick 7000 10) threeRows j)"
    by (simp add: len lt3 threeRows_times)
  have np: "\<not> cellParses (dateCell (threeRows ! 0))" "\<not> cellParses (dateCell (threeRows ! 2))"
    by (simp_all add: threeRows_def cellParses_def)
  note t = load_then_sort_by_date [of _ threeRows "tick 4000 1" "tick 7000 10" byteCompare None]
  have same: "map withoutDate
        (sortTransactions byteCompare (loadData (tick 4000 1) threeRows) (Some ''date'') None)
      = map withoutDate
        (sortTransactions byteCompare (loadData (tick 7000 10) threeRows) (Some ''date'') None)"
    using t [THEN conjunct2, THEN conjunct2, THEN conjunct1] iso by blast
  have d: "date (loadData (tick 4000 1) threeRows ! 0) = Instant 4000"
    "date (loadData (tick 7000 10) threeRows ! 0) = Instant 7000"
    "date (loadData (tick 7000 10) threeRows ! 2) = Instant 7020"
    by (simp_all add: threeRows_loaded)
  have ids: "map transactionId (map withoutDate
        (sortTransactions byteCompare (loadData (tick 4000 1) threeRows) (Some ''date'') None))
      = [''T2'', ''T1'', ''T3'']"
    using threeRows_sorted [of 4000 1] by (simp add: withoutDate_def comp_def)
  from np d ids same show ?thesis by blast
qed

subsection \<open>Backend equivalence\<close>












































text \<open>
  The backends differ in more than the clamping of the page. The indexed backend also
  searches \<open>customerId\<close>, \<open>productName\<close> and \<open>transactionId\<close>; it drops an upper age
  bound of 100 or more (and a lower bound of 0 or less); and it orders names by their
  bytes, upper case first, where the array backend compares lower-cased names.
\<close>

lemma backends_differ_on_search_fields:
  "searchTransactions sampleTransactions (JStr ''CT2'') = []
   \<and> buildSearchQuery (JStr ''CT2'') = Inr (Some ''CT2'')
   \<and> findMatching sampleTransactions
         \<lparr> filterPart = buildFilterQuery noFilters, searchPart = Some ''CT2'' \<rparr> = [txAlice]"
  by (simp add: searchTransactions_def toLowerCase_def toLowerChar_def trim_def isWhiteSpace_def
        orEmpty_def Let_def buildSearchQuery_def findMatching_def matchesFilter_def
        matchesSearch_def regexMatch_def matchesIn_def matchesInArray_def buildFilterQuery_def
        noFilters_def inQuery_def selected_def sample_defs)

lemma backends_differ_on_age_bound:
  "applyFilters [txDave\<lparr> age := 101 \<rparr>]
      (FObject (noFilters\<lparr> f_ageRange := Some \<lparr> ageMin = None, ageMax = Some 100 \<rparr> \<rparr>)) = []
   \<and> findMatching [txDave\<lparr> age := 101 \<rparr>]
         \<lparr> filterPart = buildFilterQuery
              (noFilters\<lparr> f_ageRange := Some \<lparr> ageMin = None, ageMax = Some 100 \<rparr> \<rparr>),
           searchPart = None \<rparr> = [txDave\<lparr> age := 101 \<rparr>]"
  by (simp add: applyFilters_def filterByAgeRange_def Let_def findMatching_def matchesFilter_def
        matchesSearch_def matchesIn_def matchesInArray_def buildFilterQuery_def
        noFilters_def inQuery_def selected_def sample_defs)

lemma backends_differ_on_name_order:
  "sortTransactions byteCompare sampleTransactions (Some ''customerName'') (Some ''asc'')
     = [txAlice, txBob, txCarol, txDave, txJohn]
   \<and> storeSort (buildSortQuery (Some ''customerName'') (Some ''asc'')) sampleTransactions
     = [txAlice, txBob, txDave, txJohn, txCarol]"
  unfolding sortTransactions_cases sortByCustomerName_stableSort [OF byteCompare_consistent]
  by (simp add: stableSort_def
        nameComparator_def nameKey_def byteCompare_def toLowerCase_def toLowerChar_def orEmpty_def
        sortCompare_def Let_def storeSort_def buildSortQuery_def storeComparator_def
        fieldValue_def optStr_def sample_defs)






end
